theory Spec2Isabelle
  imports Main "HOL-Library.Word" "HOL-Library.Sublist"
begin

section \<open>The wallet view of src/qt/walletview.cpp\<close>

text \<open>
  \<^verbatim>\<open>WalletView\<close> is a \<^verbatim>\<open>QStackedWidget\<close> that owns the tab pages of one wallet
  and relays between the wallet's models and its dialogs. The embedding keeps the
  members the methods read or write in a record, and returns from every method the
  list of calls it makes on its collaborators and of signals it emits, in program
  order, together with the view after the call. Strings of both kinds
  (\<^verbatim>\<open>QString\<close>, \<^verbatim>\<open>std::string\<close>) are \<open>string\<close>; the conversions between them
  (\<^verbatim>\<open>toStdString\<close>, \<^verbatim>\<open>fromStdString\<close>, \<^verbatim>\<open>toLocal8Bit().data()\<close>) are the identity.
  A pointer member is an \<open>option\<close>: \<open>None\<close> is \<^verbatim>\<open>nullptr\<close>.
\<close>

subsection \<open>Collaborators\<close>

text \<open>\<^verbatim>\<open>clientModel->node().isInitialBlockDownload()\<close>.\<close>

record ClientModel =
  node_isInitialBlockDownload :: bool

text \<open>
  The transaction table model is a Qt item model. The method reads it through
  \<^verbatim>\<open>index(row, column, parent)\<close> and \<^verbatim>\<open>data(index, role)\<close>; a \<^verbatim>\<open>QVariant\<close> is known
  by what \<^verbatim>\<open>toString()\<close> and \<^verbatim>\<open>toULongLong()\<close> return on it
  (\<^verbatim>\<open>index.data(role)\<close> asks the model that made the index, so it is \<open>ttm_data\<close>
  as well; the amount is an unsigned 64-bit value stored in a \<^verbatim>\<open>qint64\<close>, the same 64
  bits). The enumerators
  \<^verbatim>\<open>TransactionTableModel::Date\<close>, \<^verbatim>\<open>Type\<close> and \<^verbatim>\<open>Amount\<close> are kept symbolic (their
  numbers are declared with the model); the literal column \<^verbatim>\<open>0\<close> is \<open>ColumnNo 0\<close>.
\<close>

datatype Column = Date | Type | Amount | ColumnNo int

datatype Role = DisplayRole | EditRole | AddressRole | LabelRole

datatype QModelIndex = QModelIndex_invalid | QModelIndex_at int Column

record QVariant =
  toString :: string
  toULongLong :: "64 word"

record TransactionTableModel =
  processingQueuedTransactions :: bool
  ttm_index :: "int \<Rightarrow> Column \<Rightarrow> QModelIndex \<Rightarrow> QModelIndex"
  ttm_data :: "QModelIndex \<Rightarrow> Role \<Rightarrow> QVariant"

record OptionsModel =
  getDisplayUnit :: int

text \<open>\<^verbatim>\<open>wallet().backupWallet(path)\<close> answers whether the backup was written.\<close>

record Wallet =
  wallet_backupWallet :: "string \<Rightarrow> bool"

text \<open>
  Modelled from the spec: the enumeration \<^verbatim>\<open>WalletModel::EncryptionStatus\<close> is declared
  in qt/walletmodel.h, which is not part of the source at hand. The specification
  names a wallet that is unencrypted, locked or unlocked.
\<close>

datatype EncryptionStatus = Unencrypted | Locked | Unlocked

record WalletModel =
  getTransactionTableModel :: "TransactionTableModel option"
  getOptionsModel :: OptionsModel
  getWalletName :: string
  getEncryptionStatus :: EncryptionStatus
  wallet :: Wallet

text \<open>
  A view is known to its frame by its address. \<^verbatim>\<open>currentWalletView()\<close> is the
  address of the frame's current view, or \<^verbatim>\<open>nullptr\<close>.
\<close>

record WalletFrame =
  currentWalletView :: "nat option"

datatype WindowModality = NonModal | WindowModal | ApplicationModal

text \<open>
  The progress dialog is a Qt object. The view keeps a pointer to it and reads one
  property, \<^verbatim>\<open>wasCanceled()\<close>, which the user sets between two calls (a dialog
  just built has not been canceled); what the view sets on the dialog is recorded as
  calls.
\<close>

record QProgressDialog =
  wasCanceled :: bool

subsection \<open>The view\<close>

text \<open>The widgets the constructor adds to the stack with \<^verbatim>\<open>addWidget\<close>.\<close>

datatype Page =
  overviewPage | transactionsPage | infinitynodeListPage | statsWindow | faqWindow | stakePage

datatype AddressBook = usedSendingAddressesPage | usedReceivingAddressesPage

record WalletView =
  this_view :: nat
  clientModel :: "ClientModel option"
  walletModel :: "WalletModel option"
  walletFrame :: "WalletFrame option"
  currentWidget :: Page
  progressDialog :: "QProgressDialog option"

subsection \<open>Calls and signals\<close>

datatype MessageStyle = MSG_ERROR | MSG_INFORMATION

datatype Mode = Encrypt | Unlock | ChangePass

text \<open>
  One constructor for each signal the methods emit (\<^verbatim>\<open>Q_EMIT\<close>) and for each call
  they make on an object or a helper outside the class. \<open>'tx\<close> is the type of a decoded
  \<^verbatim>\<open>PartiallySignedTransaction\<close>.
\<close>

datatype 'tx Effect =
    Emit_message string string MessageStyle
  | Emit_incomingTransaction string int "64 word" string string string string
  | Emit_encryptionStatusChanged
  | overviewPage_showTransactionWidget bool
  | overviewPage_showToolBoxWidget bool
  | receiveCoinsPage_show
  | sendCoinsPage_setAddress string
  | sendCoinsPage_show
  | Call_DecodeBase64 string
  | GUIUtil_getOpenFileName string string string
  | Call_GetFileSize string nat
  | ifstream_read string
  | Call_DecodeRawPSBT string
  | PSBTOperationsDialog_new
  | PSBTOperationsDialog_openWithPSBT 'tx
  | PSBTOperationsDialog_setAttribute_WA_DeleteOnClose
  | PSBTOperationsDialog_exec
  | AskPassphraseDialog_new Mode
  | AskPassphraseDialog_setModel
  | AskPassphraseDialog_exec
  | GUIUtil_getSaveFileName string string string
  | Call_wallet_backupWallet string
  | Call_wallet_abortRescan
  | walletModel_setWalletLocked bool
  | GUIUtil_bringToFront AddressBook
  | QProgressDialog_new string string int int
  | GUIUtil_PolishProgressDialog
  | progressDialog_setWindowModality WindowModality
  | progressDialog_setAutoClose bool
  | progressDialog_setValue int
  | progressDialog_close
  | progressDialog_deleteLater

type_synonym 'tx Outcome = "'tx Effect list \<times> WalletView"

subsection \<open>Page navigation\<close>

definition gotoOverviewPage :: "WalletView \<Rightarrow> 'tx Outcome" where
  "gotoOverviewPage v =
     ([overviewPage_showTransactionWidget True, overviewPage_showToolBoxWidget False],
      v\<lparr>currentWidget := overviewPage\<rparr>)"

definition gotoHomePage :: "WalletView \<Rightarrow> 'tx Outcome" where
  "gotoHomePage v =
     ([overviewPage_showTransactionWidget False, overviewPage_showToolBoxWidget True],
      v\<lparr>currentWidget := overviewPage\<rparr>)"

definition gotoHistoryPage :: "WalletView \<Rightarrow> 'tx Outcome" where
  "gotoHistoryPage v = ([], v\<lparr>currentWidget := transactionsPage\<rparr>)"

definition gotoInfinitynodePage :: "WalletView \<Rightarrow> 'tx Outcome" where
  "gotoInfinitynodePage v = ([], v\<lparr>currentWidget := infinitynodeListPage\<rparr>)"

definition gotoStatsPage :: "WalletView \<Rightarrow> 'tx Outcome" where
  "gotoStatsPage v = ([], v\<lparr>currentWidget := statsWindow\<rparr>)"

definition gotoFaqPage :: "WalletView \<Rightarrow> 'tx Outcome" where
  "gotoFaqPage v = ([], v\<lparr>currentWidget := faqWindow\<rparr>)"

definition gotoStakePage :: "WalletView \<Rightarrow> 'tx Outcome" where
  "gotoStakePage v = ([], v\<lparr>currentWidget := stakePage\<rparr>)"

text \<open>
  \<^verbatim>\<open>walletFrame && walletFrame->currentWalletView() == this\<close>: the view is the one
  its frame shows.
\<close>

definition is_current_view :: "WalletView \<Rightarrow> bool" where
  "is_current_view v =
     (case walletFrame v of
        None \<Rightarrow> False
      | Some frame \<Rightarrow> currentWalletView frame = Some (this_view v))"

definition gotoReceiveCoinsPage :: "WalletView \<Rightarrow> 'tx Outcome" where
  "gotoReceiveCoinsPage v =
     ((if is_current_view v then [receiveCoinsPage_show] else []),
      v\<lparr>currentWidget := overviewPage\<rparr>)"

definition gotoSendCoinsPage :: "WalletView \<Rightarrow> string \<Rightarrow> 'tx Outcome" where
  "gotoSendCoinsPage v addr =
     ((if is_current_view v
       then (if addr \<noteq> [] then [sendCoinsPage_setAddress addr] else []) @ [sendCoinsPage_show]
       else []),
      v\<lparr>currentWidget := overviewPage\<rparr>)"

subsection \<open>Helpers and services outside the class\<close>

text \<open>
  What a method takes from outside the class in one call: the translation \<^verbatim>\<open>tr\<close>,
  \<^verbatim>\<open>QString::arg\<close> and \<^verbatim>\<open>GUIUtil::HtmlEscape\<close> as functions on strings, the text of
  the clipboard, the file names the user picks in the two file dialogs, the files on
  disk (size and bytes of the file at a path), and the two decoders.
  \<^verbatim>\<open>DecodeBase64(raw, &invalid)\<close> gives the decoded bytes and the flag;
  \<^verbatim>\<open>DecodeRawPSBT(psbtx, data, error)\<close> gives \<open>Inl error\<close> when it returns false and
  \<open>Inr psbtx\<close> when it returns true. \<^verbatim>\<open>MAX_FILE_SIZE_PSBT\<close> is declared in psbt.h.
\<close>

record 'tx Env =
  tr :: "string \<Rightarrow> string"
  QString_arg :: "string \<Rightarrow> string \<Rightarrow> string"
  HtmlEscape :: "string \<Rightarrow> string"
  clipboard_text :: string
  getOpenFileName :: string
  getSaveFileName :: string
  file_size :: "string \<Rightarrow> nat"
  file_bytes :: "string \<Rightarrow> string"
  MAX_FILE_SIZE_PSBT :: nat
  DecodeBase64 :: "string \<Rightarrow> string \<times> bool"
  DecodeRawPSBT :: "string \<Rightarrow> string + 'tx"

text \<open>
  Modelled from the spec: \<^verbatim>\<open>GetFileSize(path, max)\<close> is declared in util/system.h,
  which is not part of the source at hand. The specification reads its result as the
  size of the file, counted up to \<open>max\<close> bytes: a file of at least \<open>max\<close> bytes gives
  \<open>max\<close>.
\<close>

definition GetFileSize :: "'tx Env \<Rightarrow> string \<Rightarrow> nat \<Rightarrow> nat" where
  "GetFileSize env path max_size = min (file_size env path) max_size"

text \<open>
  Modelled from the spec: \<^verbatim>\<open>getWalletModel()\<close> is declared in qt/walletview.h, which
  is not part of the source at hand. It is the accessor of the member
  \<^verbatim>\<open>walletModel\<close>, the wallet model the specification's \<^verbatim>\<open>wallet()\<close> calls go through.
\<close>

definition getWalletModel :: "WalletView \<Rightarrow> WalletModel option" where
  "getWalletModel v = walletModel v"

text \<open>A method that dereferences a null pointer does not return.\<close>

datatype Error = NullPointerDereference

subsection \<open>New transactions\<close>

definition processNewTransaction ::
  "'tx Env \<Rightarrow> WalletView \<Rightarrow> QModelIndex \<Rightarrow> int \<Rightarrow> int \<Rightarrow> 'tx Outcome" where
  "processNewTransaction env v parent start end_row =
     (case walletModel v of
        None \<Rightarrow> ([], v)
      | Some wm \<Rightarrow>
          (case clientModel v of
             None \<Rightarrow> ([], v)
           | Some cm \<Rightarrow>
               if node_isInitialBlockDownload cm then ([], v)
               else
                 (case getTransactionTableModel wm of
                    None \<Rightarrow> ([], v)
                  | Some ttm \<Rightarrow>
                      if processingQueuedTransactions ttm then ([], v)
                      else
                        (let date = toString (ttm_data ttm (ttm_index ttm start Date parent) DisplayRole);
                             amount = toULongLong (ttm_data ttm (ttm_index ttm start Amount parent) EditRole);
                             type_str = toString (ttm_data ttm (ttm_index ttm start Type parent) DisplayRole);
                             index = ttm_index ttm start (ColumnNo 0) parent;
                             address = toString (ttm_data ttm index AddressRole);
                             label = HtmlEscape env (toString (ttm_data ttm index LabelRole))
                         in ([Emit_incomingTransaction date (getDisplayUnit (getOptionsModel wm))
                                amount type_str address label (HtmlEscape env (getWalletName wm))],
                             v)))))"

subsection \<open>Loading a partially signed transaction\<close>

text \<open>
  The first half of \<^verbatim>\<open>gotoLoadPSBT\<close> fills \<^verbatim>\<open>data\<close> from the clipboard or from a
  file; \<open>None\<close> is one of its three early returns.
\<close>

definition gotoLoadPSBT_data :: "'tx Env \<Rightarrow> bool \<Rightarrow> 'tx Effect list \<times> string option" where
  "gotoLoadPSBT_data env from_clipboard =
     (if from_clipboard then
        (let raw = clipboard_text env;
             (data, invalid) = DecodeBase64 env raw
         in if invalid then
              ([Call_DecodeBase64 raw,
                Emit_message (tr env ''Error'')
                  (tr env ''Unable to decode PSBT from clipboard (invalid base64)'') MSG_ERROR],
               None)
            else ([Call_DecodeBase64 raw], Some data))
      else
        (let filename = getOpenFileName env;
             ask = GUIUtil_getOpenFileName (tr env ''Load Transaction Data'') []
                     (tr env ''Partially Signed Transaction (*.psbt)'')
         in if filename = [] then ([ask], None)
            else if GetFileSize env filename (MAX_FILE_SIZE_PSBT env) = MAX_FILE_SIZE_PSBT env then
              ([ask, Call_GetFileSize filename (MAX_FILE_SIZE_PSBT env),
                Emit_message (tr env ''Error'')
                  (tr env ''PSBT file must be smaller than 100 MiB'') MSG_ERROR],
               None)
            else
              ([ask, Call_GetFileSize filename (MAX_FILE_SIZE_PSBT env), ifstream_read filename],
               Some (file_bytes env filename))))"

definition gotoLoadPSBT :: "'tx Env \<Rightarrow> WalletView \<Rightarrow> bool \<Rightarrow> 'tx Outcome" where
  "gotoLoadPSBT env v from_clipboard =
     (case gotoLoadPSBT_data env from_clipboard of
        (es, None) \<Rightarrow> (es, v)
      | (es, Some data) \<Rightarrow>
          (case DecodeRawPSBT env data of
             Inl error \<Rightarrow>
               (es @ [Call_DecodeRawPSBT data,
                      Emit_message (tr env ''Error'')
                        (tr env ''Unable to decode PSBT'' @ [CHR 0x0A] @ error) MSG_ERROR],
                v)
           | Inr psbtx \<Rightarrow>
               (es @ [Call_DecodeRawPSBT data,
                      PSBTOperationsDialog_new,
                      PSBTOperationsDialog_openWithPSBT psbtx,
                      PSBTOperationsDialog_setAttribute_WA_DeleteOnClose,
                      PSBTOperationsDialog_exec],
                v)))"

subsection \<open>Wallet actions\<close>

definition updateEncryptionStatus :: "WalletView \<Rightarrow> 'tx Outcome" where
  "updateEncryptionStatus v = ([Emit_encryptionStatusChanged], v)"

definition encryptWallet :: "WalletView \<Rightarrow> 'tx Outcome" where
  "encryptWallet v =
     (case walletModel v of
        None \<Rightarrow> ([], v)
      | Some wm \<Rightarrow>
          (let (es, v') = updateEncryptionStatus v
           in ([AskPassphraseDialog_new Encrypt, AskPassphraseDialog_setModel,
                AskPassphraseDialog_exec] @ es, v')))"

definition backupWallet :: "'tx Env \<Rightarrow> WalletView \<Rightarrow> Error + 'tx Outcome" where
  "backupWallet env v =
     (let filename = getSaveFileName env;
          ask = GUIUtil_getSaveFileName (tr env ''Backup Wallet'') []
                  (tr env ''Wallet Data'' @ '' (*.dat)'')
      in if filename = [] then Inr ([ask], v)
         else
           (case walletModel v of
              None \<Rightarrow> Inl NullPointerDereference
            | Some wm \<Rightarrow>
                if \<not> wallet_backupWallet (wallet wm) filename then
                  Inr ([ask, Call_wallet_backupWallet filename,
                        Emit_message (tr env ''Backup Failed'')
                          (QString_arg env
                             (tr env ''There was an error trying to save the wallet data to %1.'')
                             filename)
                          MSG_ERROR],
                       v)
                else
                  Inr ([ask, Call_wallet_backupWallet filename,
                        Emit_message (tr env ''Backup Successful'')
                          (QString_arg env
                             (tr env ''The wallet data was successfully saved to %1.'')
                             filename)
                          MSG_INFORMATION],
                       v)))"

definition unlockWallet :: "WalletView \<Rightarrow> 'tx Outcome" where
  "unlockWallet v =
     (case walletModel v of
        None \<Rightarrow> ([], v)
      | Some wm \<Rightarrow>
          if getEncryptionStatus wm = Locked then
            ([AskPassphraseDialog_new Unlock, AskPassphraseDialog_setModel,
              AskPassphraseDialog_exec], v)
          else ([], v))"

definition lockWallet :: "WalletView \<Rightarrow> 'tx Outcome" where
  "lockWallet v =
     (case walletModel v of
        None \<Rightarrow> ([], v)
      | Some wm \<Rightarrow> ([walletModel_setWalletLocked True], v))"

definition usedSendingAddresses :: "WalletView \<Rightarrow> 'tx Outcome" where
  "usedSendingAddresses v =
     (case walletModel v of
        None \<Rightarrow> ([], v)
      | Some wm \<Rightarrow> ([GUIUtil_bringToFront usedSendingAddressesPage], v))"

definition usedReceivingAddresses :: "WalletView \<Rightarrow> 'tx Outcome" where
  "usedReceivingAddresses v =
     (case walletModel v of
        None \<Rightarrow> ([], v)
      | Some wm \<Rightarrow> ([GUIUtil_bringToFront usedReceivingAddressesPage], v))"

subsection \<open>Rescan progress\<close>

definition showProgress :: "'tx Env \<Rightarrow> WalletView \<Rightarrow> string \<Rightarrow> int \<Rightarrow> Error + 'tx Outcome" where
  "showProgress env v title nProgress =
     (if nProgress = 0 then
        Inr ([QProgressDialog_new title (tr env ''Cancel'') 0 100,
              GUIUtil_PolishProgressDialog,
              progressDialog_setWindowModality ApplicationModal,
              progressDialog_setAutoClose False,
              progressDialog_setValue 0],
             v\<lparr>progressDialog := Some \<lparr>wasCanceled = False\<rparr>\<rparr>)
      else if nProgress = 100 then
        (case progressDialog v of
           Some dlg \<Rightarrow>
             Inr ([progressDialog_close, progressDialog_deleteLater], v\<lparr>progressDialog := None\<rparr>)
         | None \<Rightarrow> Inr ([], v))
      else
        (case progressDialog v of
           Some dlg \<Rightarrow>
             if wasCanceled dlg then
               (case getWalletModel v of
                  None \<Rightarrow> Inl NullPointerDereference
                | Some wm \<Rightarrow> Inr ([Call_wallet_abortRescan], v))
             else Inr ([progressDialog_setValue nProgress], v)
         | None \<Rightarrow> Inr ([], v)))"

subsection \<open>Reading a list of calls and signals\<close>

definition is_message :: "'tx Effect \<Rightarrow> bool" where
  "is_message e = (case e of Emit_message title body style \<Rightarrow> True | _ \<Rightarrow> False)"

definition is_incomingTransaction :: "'tx Effect \<Rightarrow> bool" where
  "is_incomingTransaction e =
     (case e of Emit_incomingTransaction d u a t ad l w \<Rightarrow> True | _ \<Rightarrow> False)"

definition is_PSBTOperationsDialog :: "'tx Effect \<Rightarrow> bool" where
  "is_PSBTOperationsDialog e =
     (case e of
        PSBTOperationsDialog_new \<Rightarrow> True
      | PSBTOperationsDialog_openWithPSBT psbtx \<Rightarrow> True
      | PSBTOperationsDialog_setAttribute_WA_DeleteOnClose \<Rightarrow> True
      | PSBTOperationsDialog_exec \<Rightarrow> True
      | _ \<Rightarrow> False)"

definition is_DecodeRawPSBT :: "'tx Effect \<Rightarrow> bool" where
  "is_DecodeRawPSBT e = (case e of Call_DecodeRawPSBT bytes \<Rightarrow> True | _ \<Rightarrow> False)"

definition is_ifstream_read :: "'tx Effect \<Rightarrow> bool" where
  "is_ifstream_read e = (case e of ifstream_read path \<Rightarrow> True | _ \<Rightarrow> False)"

definition is_wallet_call :: "'tx Effect \<Rightarrow> bool" where
  "is_wallet_call e =
     (case e of
        Call_wallet_backupWallet path \<Rightarrow> True
      | Call_wallet_abortRescan \<Rightarrow> True
      | _ \<Rightarrow> False)"

text \<open>The members a page switch leaves alone.\<close>

definition other_members ::
  "WalletView \<Rightarrow> nat \<times> ClientModel option \<times> WalletModel option \<times> WalletFrame option \<times>
     QProgressDialog option" where
  "other_members v =
     (this_view v, clientModel v, walletModel v, walletFrame v, progressDialog v)"

subsection \<open>Sample inputs\<close>

definition sample_ttm :: TransactionTableModel where
  "sample_ttm =
     \<lparr>processingQueuedTransactions = False,
      ttm_index = (\<lambda>row col parent. QModelIndex_at row col),
      ttm_data = (\<lambda>idx role.
        (case idx of
           QModelIndex_at row Amount \<Rightarrow> \<lparr>toString = ''-0.5'', toULongLong = - 50000000\<rparr>
         | QModelIndex_at row Date \<Rightarrow> \<lparr>toString = ''2021-03-01'', toULongLong = 0\<rparr>
         | QModelIndex_at row Type \<Rightarrow> \<lparr>toString = ''Sent to'', toULongLong = 0\<rparr>
         | _ \<Rightarrow>
             (case role of
                AddressRole \<Rightarrow> \<lparr>toString = ''SXyz'', toULongLong = 0\<rparr>
              | LabelRole \<Rightarrow> \<lparr>toString = ''a<b'', toULongLong = 0\<rparr>
              | _ \<Rightarrow> \<lparr>toString = [], toULongLong = 0\<rparr>)))\<rparr>"

definition sample_walletModel :: WalletModel where
  "sample_walletModel =
     \<lparr>getTransactionTableModel = Some sample_ttm,
      getOptionsModel = \<lparr>getDisplayUnit = 0\<rparr>,
      getWalletName = ''main'',
      getEncryptionStatus = Locked,
      wallet = \<lparr>wallet_backupWallet = (\<lambda>path. path = ''/home/u/wallet.dat'')\<rparr>\<rparr>"

definition sample_view :: WalletView where
  "sample_view =
     \<lparr>this_view = 1,
      clientModel = Some \<lparr>node_isInitialBlockDownload = False\<rparr>,
      walletModel = Some sample_walletModel,
      walletFrame = Some \<lparr>currentWalletView = Some 1\<rparr>,
      currentWidget = transactionsPage,
      progressDialog = None\<rparr>"

text \<open>The view as the constructor leaves it: no client model, no wallet model.\<close>

definition fresh_view :: WalletView where
  "fresh_view =
     \<lparr>this_view = 1,
      clientModel = None,
      walletModel = None,
      walletFrame = Some \<lparr>currentWalletView = Some 1\<rparr>,
      currentWidget = overviewPage,
      progressDialog = None\<rparr>"

definition sample_env :: "string Env" where
  "sample_env =
     \<lparr>tr = (\<lambda>s. s),
      QString_arg = (\<lambda>s a. s @ '' ['' @ a @ '']''),
      HtmlEscape = concat \<circ> map (\<lambda>c. if c = CHR ''<'' then ''&lt;'' else [c]),
      clipboard_text = ''cHNidP8='',
      getOpenFileName = ''/home/u/tx.psbt'',
      getSaveFileName = ''/home/u/wallet.dat'',
      file_size = (\<lambda>path. 5),
      file_bytes = (\<lambda>path. ''psbt'' @ [CHR 0xFF]),
      MAX_FILE_SIZE_PSBT = 100000000,
      DecodeBase64 = (\<lambda>raw. (''psbt'' @ [CHR 0xFF], False)),
      DecodeRawPSBT = (\<lambda>bytes. if bytes = ''psbt'' @ [CHR 0xFF] then Inr ''tx'' else
        Inl ''Invalid PSBT magic bytes'')\<rparr>"

section \<open>Properties\<close>

text \<open>
  C7. Each page-navigation method switches only the visible widget. The five plain
  methods make their page the current widget, call nothing and leave every other
  member as it was; \<open>gotoOverviewPage\<close> and \<open>gotoHomePage\<close> both make the overview
  page current, the first showing the transaction widget and hiding the tool box,
  the second hiding the transaction widget and showing the tool box.
\<close>

theorem page_navigation_switches_only_the_widget:
  "fst (gotoHistoryPage v) = [] \<and>
   currentWidget (snd (gotoHistoryPage v)) = transactionsPage \<and>
   other_members (snd (gotoHistoryPage v)) = other_members v \<and>
   fst (gotoInfinitynodePage v) = [] \<and>
   currentWidget (snd (gotoInfinitynodePage v)) = infinitynodeListPage \<and>
   other_members (snd (gotoInfinitynodePage v)) = other_members v \<and>
   fst (gotoStatsPage v) = [] \<and>
   currentWidget (snd (gotoStatsPage v)) = statsWindow \<and>
   other_members (snd (gotoStatsPage v)) = other_members v \<and>
   fst (gotoFaqPage v) = [] \<and>
   currentWidget (snd (gotoFaqPage v)) = faqWindow \<and>
   other_members (snd (gotoFaqPage v)) = other_members v \<and>
   fst (gotoStakePage v) = [] \<and>
   currentWidget (snd (gotoStakePage v)) = stakePage \<and>
   other_members (snd (gotoStakePage v)) = other_members v \<and>
   gotoOverviewPage v =
     ([overviewPage_showTransactionWidget True, overviewPage_showToolBoxWidget False],
      v\<lparr>currentWidget := overviewPage\<rparr>) \<and>
   gotoHomePage v =
     ([overviewPage_showTransactionWidget False, overviewPage_showToolBoxWidget True],
      v\<lparr>currentWidget := overviewPage\<rparr>)"
  by (simp add: gotoHistoryPage_def gotoInfinitynodePage_def gotoStatsPage_def
      gotoFaqPage_def gotoStakePage_def gotoOverviewPage_def gotoHomePage_def
      other_members_def)

text \<open>
  C10. \<open>gotoReceiveCoinsPage\<close> and \<open>gotoSendCoinsPage\<close> always make the overview page
  the current widget. Each shows its dialog exactly when the view has a frame and is
  the frame's current view, and \<open>gotoSendCoinsPage\<close> sets the address on the send
  dialog exactly when, in addition, the address is not empty; the address it sets is
  the one it was given.
\<close>

theorem receive_and_send_dialogs_are_gated:
  "currentWidget (snd (gotoReceiveCoinsPage v)) = overviewPage \<and>
   currentWidget (snd (gotoSendCoinsPage v addr)) = overviewPage \<and>
   (receiveCoinsPage_show \<in> set (fst (gotoReceiveCoinsPage v))) =
     (\<exists>frame. walletFrame v = Some frame \<and> currentWalletView frame = Some (this_view v)) \<and>
   (sendCoinsPage_show \<in> set (fst (gotoSendCoinsPage v addr))) =
     (\<exists>frame. walletFrame v = Some frame \<and> currentWalletView frame = Some (this_view v)) \<and>
   (sendCoinsPage_setAddress a \<in> set (fst (gotoSendCoinsPage v addr))) =
     (a = addr \<and> addr \<noteq> [] \<and>
      (\<exists>frame. walletFrame v = Some frame \<and> currentWalletView frame = Some (this_view v)))"
  by (auto simp add: gotoReceiveCoinsPage_def gotoSendCoinsPage_def is_current_view_def
      split: option.splits)

text \<open>
  C9. \<open>unlockWallet\<close> opens an \<^verbatim>\<open>AskPassphraseDialog\<close> in mode \<open>Unlock\<close> exactly when
  the wallet model is set and its encryption status is \<open>Locked\<close>; in every other case
  it calls nothing and changes nothing.
\<close>

theorem unlockWallet_asks_only_when_locked:
  "unlockWallet v =
     (if \<exists>wm. walletModel v = Some wm \<and> getEncryptionStatus wm = Locked
      then ([AskPassphraseDialog_new Unlock, AskPassphraseDialog_setModel,
             AskPassphraseDialog_exec], v)
      else ([], v))"
  by (simp add: unlockWallet_def split: option.splits)

text \<open>
  C8. With no wallet model, \<open>encryptWallet\<close>, \<open>unlockWallet\<close>, \<open>lockWallet\<close>,
  \<open>usedSendingAddresses\<close> and \<open>usedReceivingAddresses\<close> return at once: no call, no
  signal, the view unchanged. \<open>backupWallet\<close> has no such guard: once a file name
  is chosen it dereferences \<open>walletModel\<close>, so it fails with a null pointer
  dereference exactly when the wallet model is missing.
\<close>

theorem walletModel_null_guards:
  "(walletModel v = None \<longrightarrow>
      encryptWallet v = ([], v) \<and> unlockWallet v = ([], v) \<and> lockWallet v = ([], v) \<and>
      usedSendingAddresses v = ([], v) \<and> usedReceivingAddresses v = ([], v)) \<and>
   (getSaveFileName env \<noteq> [] \<longrightarrow>
      (backupWallet env v = Inl NullPointerDereference) = (walletModel v = None))"
  by (simp add: encryptWallet_def unlockWallet_def lockWallet_def usedSendingAddresses_def
      usedReceivingAddresses_def backupWallet_def Let_def split: option.splits)

theorem walletModel_null_guards_witness:
  "walletModel fresh_view = None \<and> getSaveFileName sample_env \<noteq> [] \<and>
   encryptWallet fresh_view = ([], fresh_view) \<and>
   unlockWallet fresh_view = ([], fresh_view) \<and>
   lockWallet fresh_view = ([], fresh_view) \<and>
   usedSendingAddresses fresh_view = ([], fresh_view) \<and>
   usedReceivingAddresses fresh_view = ([], fresh_view) \<and>
   backupWallet sample_env fresh_view = Inl NullPointerDereference"
proof -
  have none: "walletModel fresh_view = None"
    by (simp add: fresh_view_def)
  have chosen: "getSaveFileName sample_env \<noteq> []"
    by (simp add: sample_env_def)
  from none chosen walletModel_null_guards [of fresh_view sample_env]
  show ?thesis by simp
qed

text \<open>
  C2. When the text of the clipboard is not valid base64 (\<^verbatim>\<open>DecodeBase64\<close> sets
  \<^verbatim>\<open>invalid\<close>), \<open>gotoLoadPSBT\<close> from the clipboard calls \<^verbatim>\<open>DecodeBase64\<close> on that
  text, emits the error "Unable to decode PSBT from clipboard (invalid base64)" and
  returns. These two are all it does: exactly one message, no call of
  \<^verbatim>\<open>DecodeRawPSBT\<close>, no dialog of any kind, and the view as it was.
\<close>

theorem gotoLoadPSBT_invalid_base64:
  assumes "snd (DecodeBase64 env (clipboard_text env))"
  shows "gotoLoadPSBT env v True =
           ([Call_DecodeBase64 (clipboard_text env),
             Emit_message (tr env ''Error'')
               (tr env ''Unable to decode PSBT from clipboard (invalid base64)'') MSG_ERROR],
            v) \<and>
         filter is_message (fst (gotoLoadPSBT env v True)) =
           [Emit_message (tr env ''Error'')
              (tr env ''Unable to decode PSBT from clipboard (invalid base64)'') MSG_ERROR] \<and>
         filter is_DecodeRawPSBT (fst (gotoLoadPSBT env v True)) = [] \<and>
         filter is_PSBTOperationsDialog (fst (gotoLoadPSBT env v True)) = [] \<and>
         snd (gotoLoadPSBT env v True) = v"
proof -
  obtain data where "DecodeBase64 env (clipboard_text env) = (data, True)"
    using assms by (cases "DecodeBase64 env (clipboard_text env)") simp
  then show ?thesis
    by (simp add: gotoLoadPSBT_def gotoLoadPSBT_data_def is_message_def
        is_DecodeRawPSBT_def is_PSBTOperationsDialog_def)
qed

theorem gotoLoadPSBT_invalid_base64_witness:
  "snd (DecodeBase64 (sample_env\<lparr>DecodeBase64 := (\<lambda>raw. ([], True))\<rparr>) ''cHNidP8='') \<and>
   gotoLoadPSBT (sample_env\<lparr>DecodeBase64 := (\<lambda>raw. ([], True))\<rparr>) sample_view True =
     ([Call_DecodeBase64 ''cHNidP8='',
       Emit_message ''Error'' ''Unable to decode PSBT from clipboard (invalid base64)''
         MSG_ERROR],
      sample_view) \<and>
   filter is_message
     (fst (gotoLoadPSBT (sample_env\<lparr>DecodeBase64 := (\<lambda>raw. ([], True))\<rparr>) sample_view True)) =
     [Emit_message ''Error'' ''Unable to decode PSBT from clipboard (invalid base64)''
        MSG_ERROR] \<and>
   filter is_DecodeRawPSBT
     (fst (gotoLoadPSBT (sample_env\<lparr>DecodeBase64 := (\<lambda>raw. ([], True))\<rparr>) sample_view True)) = [] \<and>
   filter is_PSBTOperationsDialog
     (fst (gotoLoadPSBT (sample_env\<lparr>DecodeBase64 := (\<lambda>raw. ([], True))\<rparr>) sample_view True)) = []"
proof -
  have invalid:
    "snd (DecodeBase64 (sample_env\<lparr>DecodeBase64 := (\<lambda>raw. ([], True))\<rparr>)
       (clipboard_text (sample_env\<lparr>DecodeBase64 := (\<lambda>raw. ([], True))\<rparr>)))"
    by simp
  from gotoLoadPSBT_invalid_base64 [OF invalid, of sample_view]
  show ?thesis
    by (simp add: sample_env_def is_message_def is_DecodeRawPSBT_def
        is_PSBTOperationsDialog_def)
qed

text \<open>
  C3. Loading from a file: when the chosen file has at least \<^verbatim>\<open>MAX_FILE_SIZE_PSBT\<close>
  bytes, \<open>gotoLoadPSBT\<close> emits the error "PSBT file must be smaller than 100 MiB"
  and returns without reading the file, without calling \<^verbatim>\<open>DecodeRawPSBT\<close> and
  without a dialog; when the file dialog gives an empty name, the method returns at
  once: the file dialog is its only call, there is no message and the view is
  unchanged.
\<close>

theorem gotoLoadPSBT_file_guards:
  "(getOpenFileName env \<noteq> [] \<and>
    MAX_FILE_SIZE_PSBT env \<le> file_size env (getOpenFileName env) \<longrightarrow>
      filter is_message (fst (gotoLoadPSBT env v False)) =
        [Emit_message (tr env ''Error'')
           (tr env ''PSBT file must be smaller than 100 MiB'') MSG_ERROR] \<and>
      filter is_ifstream_read (fst (gotoLoadPSBT env v False)) = [] \<and>
      filter is_DecodeRawPSBT (fst (gotoLoadPSBT env v False)) = [] \<and>
      filter is_PSBTOperationsDialog (fst (gotoLoadPSBT env v False)) = [] \<and>
      snd (gotoLoadPSBT env v False) = v) \<and>
   (getOpenFileName env = [] \<longrightarrow>
      gotoLoadPSBT env v False =
        ([GUIUtil_getOpenFileName (tr env ''Load Transaction Data'') []
            (tr env ''Partially Signed Transaction (*.psbt)'')], v))"
  by (simp add: gotoLoadPSBT_def gotoLoadPSBT_data_def GetFileSize_def Let_def
      is_message_def is_ifstream_read_def is_DecodeRawPSBT_def is_PSBTOperationsDialog_def)

theorem gotoLoadPSBT_file_guards_witness:
  "filter is_message
     (fst (gotoLoadPSBT (sample_env\<lparr>file_size := (\<lambda>path. 100000000)\<rparr>) sample_view False)) =
     [Emit_message ''Error'' ''PSBT file must be smaller than 100 MiB'' MSG_ERROR] \<and>
   filter is_ifstream_read
     (fst (gotoLoadPSBT (sample_env\<lparr>file_size := (\<lambda>path. 100000000)\<rparr>) sample_view False)) = [] \<and>
   filter is_DecodeRawPSBT
     (fst (gotoLoadPSBT (sample_env\<lparr>file_size := (\<lambda>path. 100000000)\<rparr>) sample_view False)) = [] \<and>
   gotoLoadPSBT (sample_env\<lparr>getOpenFileName := []\<rparr>) sample_view False =
     ([GUIUtil_getOpenFileName ''Load Transaction Data'' []
         ''Partially Signed Transaction (*.psbt)''], sample_view)"
  using gotoLoadPSBT_file_guards [of "sample_env\<lparr>file_size := (\<lambda>path. 100000000)\<rparr>" sample_view]
    gotoLoadPSBT_file_guards [of "sample_env\<lparr>getOpenFileName := []\<rparr>" sample_view]
  by (simp add: sample_env_def)

text \<open>The first half of \<open>gotoLoadPSBT\<close> emits nothing and opens nothing when it yields data.\<close>

lemma gotoLoadPSBT_data_quiet:
  assumes "gotoLoadPSBT_data env from_clipboard = (es, Some data)"
  shows "filter is_message es = [] \<and> filter is_PSBTOperationsDialog es = [] \<and>
         filter is_DecodeRawPSBT es = []"
proof (cases from_clipboard)
  case True
  obtain bytes invalid where "DecodeBase64 env (clipboard_text env) = (bytes, invalid)"
    by (cases "DecodeBase64 env (clipboard_text env)")
  with assms True show ?thesis
    by (auto simp add: gotoLoadPSBT_data_def Let_def is_message_def
        is_PSBTOperationsDialog_def is_DecodeRawPSBT_def split: if_splits)
next
  case False
  with assms show ?thesis
    by (auto simp add: gotoLoadPSBT_data_def Let_def is_message_def
        is_PSBTOperationsDialog_def is_DecodeRawPSBT_def split: if_splits)
qed

text \<open>
  C1. Once the data is there (from the clipboard or from the file),
  \<^verbatim>\<open>DecodeRawPSBT\<close> is called on it once. When it fails, \<open>gotoLoadPSBT\<close> emits exactly
  one message, an error whose text is "Unable to decode PSBT", a line break and the
  decoder's error string (so the text contains that string), and neither builds nor
  opens a \<^verbatim>\<open>PSBTOperationsDialog\<close>. When it succeeds, a dialog is built, opened with
  the decoded transaction and run, and no message is emitted.
\<close>

theorem gotoLoadPSBT_decode_outcome:
  assumes "gotoLoadPSBT_data env from_clipboard = (es, Some data)"
  shows "filter is_DecodeRawPSBT (fst (gotoLoadPSBT env v from_clipboard)) =
           [Call_DecodeRawPSBT data] \<and>
         snd (gotoLoadPSBT env v from_clipboard) = v \<and>
         (DecodeRawPSBT env data = Inl error \<longrightarrow>
            filter is_message (fst (gotoLoadPSBT env v from_clipboard)) =
              [Emit_message (tr env ''Error'')
                 (tr env ''Unable to decode PSBT'' @ [CHR 0x0A] @ error) MSG_ERROR] \<and>
            sublist error (tr env ''Unable to decode PSBT'' @ [CHR 0x0A] @ error) \<and>
            filter is_PSBTOperationsDialog (fst (gotoLoadPSBT env v from_clipboard)) = []) \<and>
         (DecodeRawPSBT env data = Inr psbtx \<longrightarrow>
            filter is_PSBTOperationsDialog (fst (gotoLoadPSBT env v from_clipboard)) =
              [PSBTOperationsDialog_new, PSBTOperationsDialog_openWithPSBT psbtx,
               PSBTOperationsDialog_setAttribute_WA_DeleteOnClose, PSBTOperationsDialog_exec] \<and>
            filter is_message (fst (gotoLoadPSBT env v from_clipboard)) = [])"
proof -
  note quiet = gotoLoadPSBT_data_quiet [OF assms]
  have contains: "sublist error (tr env ''Unable to decode PSBT'' @ [CHR 0x0A] @ error)"
    by (metis sublist_appendI append.right_neutral append_assoc)
  from assms quiet contains show ?thesis
    by (cases "DecodeRawPSBT env data")
      (simp_all add: gotoLoadPSBT_def is_message_def is_PSBTOperationsDialog_def
        is_DecodeRawPSBT_def)
qed

theorem gotoLoadPSBT_decode_outcome_witness:
  "filter is_DecodeRawPSBT (fst (gotoLoadPSBT sample_env sample_view True)) =
     [Call_DecodeRawPSBT (''psbt'' @ [CHR 0xFF])] \<and>
   filter is_PSBTOperationsDialog (fst (gotoLoadPSBT sample_env sample_view True)) =
     [PSBTOperationsDialog_new, PSBTOperationsDialog_openWithPSBT ''tx'',
      PSBTOperationsDialog_setAttribute_WA_DeleteOnClose, PSBTOperationsDialog_exec] \<and>
   filter is_message (fst (gotoLoadPSBT sample_env sample_view True)) = [] \<and>
   filter is_message
     (fst (gotoLoadPSBT (sample_env\<lparr>file_bytes := (\<lambda>path. ''junk'')\<rparr>) sample_view False)) =
     [Emit_message ''Error'' (''Unable to decode PSBT'' @ [CHR 0x0A] @ ''Invalid PSBT magic bytes'')
        MSG_ERROR] \<and>
   filter is_PSBTOperationsDialog
     (fst (gotoLoadPSBT (sample_env\<lparr>file_bytes := (\<lambda>path. ''junk'')\<rparr>) sample_view False)) = []"
proof -
  have from_clipboard:
    "gotoLoadPSBT_data sample_env True =
       ([Call_DecodeBase64 ''cHNidP8=''], Some (''psbt'' @ [CHR 0xFF]))"
    by (simp add: gotoLoadPSBT_data_def sample_env_def)
  have from_file:
    "gotoLoadPSBT_data (sample_env\<lparr>file_bytes := (\<lambda>path. ''junk'')\<rparr>) False =
       ([GUIUtil_getOpenFileName ''Load Transaction Data'' []
           ''Partially Signed Transaction (*.psbt)'',
         Call_GetFileSize ''/home/u/tx.psbt'' 100000000,
         ifstream_read ''/home/u/tx.psbt''], Some ''junk'')"
    by (simp add: gotoLoadPSBT_data_def GetFileSize_def Let_def sample_env_def)
  from gotoLoadPSBT_decode_outcome [OF from_clipboard, of sample_view _ "''tx''"]
    gotoLoadPSBT_decode_outcome [OF from_file, of sample_view "''Invalid PSBT magic bytes''"]
  show ?thesis by (simp add: sample_env_def)
qed

text \<open>
  C4. A \<^verbatim>\<open>rowsInserted\<close> notification emits no \<^verbatim>\<open>incomingTransaction\<close> signal (and
  does nothing else) when the wallet model or the client model is unset, the node is
  in initial block download, or the transaction table model is absent or is
  processing queued transactions. Otherwise it emits exactly one signal, carrying the
  date, the display unit, the amount, the type, the address and the HTML-escaped
  label of row \<open>start\<close> (and the HTML-escaped name of the wallet).
\<close>

theorem processNewTransaction_signal:
  "((walletModel v = None \<or> clientModel v = None \<or>
     (\<exists>cm. clientModel v = Some cm \<and> node_isInitialBlockDownload cm) \<or>
     (\<exists>wm. walletModel v = Some wm \<and>
        (getTransactionTableModel wm = None \<or>
         (\<exists>ttm. getTransactionTableModel wm = Some ttm \<and> processingQueuedTransactions ttm)))) \<longrightarrow>
      processNewTransaction env v parent start end_row = ([], v)) \<and>
   (walletModel v = Some wm \<and> clientModel v = Some cm \<and> \<not> node_isInitialBlockDownload cm \<and>
    getTransactionTableModel wm = Some ttm \<and> \<not> processingQueuedTransactions ttm \<longrightarrow>
      processNewTransaction env v parent start end_row =
        ([Emit_incomingTransaction
            (toString (ttm_data ttm (ttm_index ttm start Date parent) DisplayRole))
            (getDisplayUnit (getOptionsModel wm))
            (toULongLong (ttm_data ttm (ttm_index ttm start Amount parent) EditRole))
            (toString (ttm_data ttm (ttm_index ttm start Type parent) DisplayRole))
            (toString (ttm_data ttm (ttm_index ttm start (ColumnNo 0) parent) AddressRole))
            (HtmlEscape env
               (toString (ttm_data ttm (ttm_index ttm start (ColumnNo 0) parent) LabelRole)))
            (HtmlEscape env (getWalletName wm))], v) \<and>
      length (filter is_incomingTransaction
        (fst (processNewTransaction env v parent start end_row))) = 1)"
  by (auto simp add: processNewTransaction_def Let_def is_incomingTransaction_def
      split: option.splits)

theorem processNewTransaction_signal_witness:
  "processNewTransaction sample_env fresh_view QModelIndex_invalid 7 7 = ([], fresh_view) \<and>
   processNewTransaction sample_env sample_view QModelIndex_invalid 7 7 =
     ([Emit_incomingTransaction ''2021-03-01'' 0 (- 50000000) ''Sent to'' ''SXyz''
         ''a&lt;b'' ''main''], sample_view)"
proof -
  have unset: "walletModel fresh_view = None"
    by (simp add: fresh_view_def)
  have ready:
    "walletModel sample_view = Some sample_walletModel \<and>
     clientModel sample_view = Some \<lparr>node_isInitialBlockDownload = False\<rparr> \<and>
     \<not> node_isInitialBlockDownload \<lparr>node_isInitialBlockDownload = False\<rparr> \<and>
     getTransactionTableModel sample_walletModel = Some sample_ttm \<and>
     \<not> processingQueuedTransactions sample_ttm"
    by (simp add: sample_view_def sample_walletModel_def sample_ttm_def)
  from unset ready
    processNewTransaction_signal [of fresh_view sample_env QModelIndex_invalid 7 7]
    processNewTransaction_signal [of sample_view sample_env QModelIndex_invalid 7 7
      sample_walletModel "\<lparr>node_isInitialBlockDownload = False\<rparr>" sample_ttm]
  show ?thesis
    by (simp add: sample_env_def sample_walletModel_def sample_ttm_def)
qed

text \<open>
  C5, as the code has it. \<open>backupWallet\<close> asks for a file name. With an empty name
  it returns: no call on the wallet, no message. With a name, and with the wallet
  model set, it calls \<^verbatim>\<open>wallet().backupWallet\<close> once on that name and emits one
  message: the information "Backup Successful" when the call returned true, the
  error "Backup Failed" when it returned false. (With a name and no wallet model the
  method dereferences a null pointer: see the counterexample.)
\<close>

theorem backupWallet_outcome:
  "(getSaveFileName env = [] \<longrightarrow>
      backupWallet env v =
        Inr ([GUIUtil_getSaveFileName (tr env ''Backup Wallet'') []
                (tr env ''Wallet Data'' @ '' (*.dat)'')], v)) \<and>
   (getSaveFileName env \<noteq> [] \<and> walletModel v = Some wm \<longrightarrow>
      (\<exists>es. backupWallet env v = Inr (es, v) \<and>
         filter is_wallet_call es = [Call_wallet_backupWallet (getSaveFileName env)] \<and>
         filter is_message es =
           [if wallet_backupWallet (wallet wm) (getSaveFileName env)
            then Emit_message (tr env ''Backup Successful'')
                   (QString_arg env (tr env ''The wallet data was successfully saved to %1.'')
                      (getSaveFileName env))
                   MSG_INFORMATION
            else Emit_message (tr env ''Backup Failed'')
                   (QString_arg env
                      (tr env ''There was an error trying to save the wallet data to %1.'')
                      (getSaveFileName env))
                   MSG_ERROR]))"
  by (simp add: backupWallet_def Let_def is_wallet_call_def is_message_def)

theorem backupWallet_outcome_witness:
  "backupWallet (sample_env\<lparr>getSaveFileName := []\<rparr>) sample_view =
     Inr ([GUIUtil_getSaveFileName ''Backup Wallet'' [] ''Wallet Data (*.dat)''], sample_view) \<and>
   (\<exists>es. backupWallet sample_env sample_view = Inr (es, sample_view) \<and>
      filter is_wallet_call es = [Call_wallet_backupWallet ''/home/u/wallet.dat''] \<and>
      filter is_message es =
        [Emit_message ''Backup Successful''
           ''The wallet data was successfully saved to %1. [/home/u/wallet.dat]''
           MSG_INFORMATION]) \<and>
   (\<exists>es. backupWallet (sample_env\<lparr>getSaveFileName := ''/proc/w.dat''\<rparr>) sample_view =
        Inr (es, sample_view) \<and>
      filter is_wallet_call es = [Call_wallet_backupWallet ''/proc/w.dat''] \<and>
      filter is_message es =
        [Emit_message ''Backup Failed''
           ''There was an error trying to save the wallet data to %1. [/proc/w.dat]''
           MSG_ERROR])"
proof -
  have model: "walletModel sample_view = Some sample_walletModel"
    by (simp add: sample_view_def)
  from model
    backupWallet_outcome [of "sample_env\<lparr>getSaveFileName := []\<rparr>" sample_view]
    backupWallet_outcome [of sample_env sample_view sample_walletModel]
    backupWallet_outcome [of "sample_env\<lparr>getSaveFileName := ''/proc/w.dat''\<rparr>" sample_view
      sample_walletModel]
  show ?thesis
    by (simp add: sample_env_def sample_walletModel_def)
qed

text \<open>
  C5 as it is written speaks of every call. On the view as the constructor leaves
  it (\<open>walletModel\<close> is null) and with a file name chosen, the method reaches
  \<^verbatim>\<open>walletModel->wallet()\<close> and does not return: the wallet is not called and no
  message is emitted.
\<close>

theorem backupWallet_every_call_counterexample:
  "getSaveFileName sample_env = ''/home/u/wallet.dat'' \<and>
   walletModel fresh_view = None \<and>
   backupWallet sample_env fresh_view = Inl NullPointerDereference"
  by (simp add: backupWallet_def sample_env_def fresh_view_def)

text \<open>
  C6, as the code has it. \<open>showProgress\<close> with progress 0 builds a new progress
  dialog (range 0 to 100, application modal, no auto-close, value 0) and keeps it.
  With progress 100 it closes the dialog, schedules its deletion and clears the
  pointer, if there is a dialog, and does nothing otherwise. With any other progress
  and a dialog: if the dialog was not canceled its value is set to the progress; if
  it was canceled and the wallet model is set, \<^verbatim>\<open>wallet().abortRescan()\<close> is called
  and the value is not set. With any other progress and no dialog nothing happens.
  A call that returns has called \<^verbatim>\<open>abortRescan\<close> only at a progress other than 0 and
  100, with a dialog that was canceled.
\<close>

theorem showProgress_protocol:
  "showProgress env v title 0 =
     Inr ([QProgressDialog_new title (tr env ''Cancel'') 0 100,
           GUIUtil_PolishProgressDialog,
           progressDialog_setWindowModality ApplicationModal,
           progressDialog_setAutoClose False,
           progressDialog_setValue 0],
          v\<lparr>progressDialog := Some \<lparr>wasCanceled = False\<rparr>\<rparr>) \<and>
   showProgress env v title 100 =
     Inr (case progressDialog v of
            None \<Rightarrow> ([], v)
          | Some dlg \<Rightarrow>
              ([progressDialog_close, progressDialog_deleteLater], v\<lparr>progressDialog := None\<rparr>)) \<and>
   (nProgress \<noteq> 0 \<and> nProgress \<noteq> 100 \<and> progressDialog v = Some dlg \<and> \<not> wasCanceled dlg \<longrightarrow>
      showProgress env v title nProgress = Inr ([progressDialog_setValue nProgress], v)) \<and>
   (nProgress \<noteq> 0 \<and> nProgress \<noteq> 100 \<and> progressDialog v = Some dlg \<and> wasCanceled dlg \<and>
    walletModel v \<noteq> None \<longrightarrow>
      showProgress env v title nProgress = Inr ([Call_wallet_abortRescan], v)) \<and>
   (nProgress \<noteq> 0 \<and> nProgress \<noteq> 100 \<and> progressDialog v = None \<longrightarrow>
      showProgress env v title nProgress = Inr ([], v)) \<and>
   (showProgress env v title nProgress = Inr (es, v') \<and> Call_wallet_abortRescan \<in> set es \<longrightarrow>
      nProgress \<noteq> 0 \<and> nProgress \<noteq> 100 \<and>
      (\<exists>dlg. progressDialog v = Some dlg \<and> wasCanceled dlg))"
  by (auto simp add: showProgress_def getWalletModel_def split: option.splits if_splits)

theorem showProgress_protocol_witness:
  "showProgress sample_env (sample_view\<lparr>progressDialog := Some \<lparr>wasCanceled = False\<rparr>\<rparr>)
     ''Rescanning...'' 50 =
     Inr ([progressDialog_setValue 50],
          sample_view\<lparr>progressDialog := Some \<lparr>wasCanceled = False\<rparr>\<rparr>) \<and>
   showProgress sample_env (sample_view\<lparr>progressDialog := Some \<lparr>wasCanceled = True\<rparr>\<rparr>)
     ''Rescanning...'' 50 =
     Inr ([Call_wallet_abortRescan],
          sample_view\<lparr>progressDialog := Some \<lparr>wasCanceled = True\<rparr>\<rparr>) \<and>
   showProgress sample_env sample_view ''Rescanning...'' 50 = Inr ([], sample_view) \<and>
   showProgress sample_env (sample_view\<lparr>progressDialog := Some \<lparr>wasCanceled = True\<rparr>\<rparr>)
     ''Rescanning...'' 100 =
     Inr ([progressDialog_close, progressDialog_deleteLater], sample_view)"
proof -
  have model: "walletModel sample_view \<noteq> None" and no_dialog: "progressDialog sample_view = None"
    by (simp_all add: sample_view_def)
  from model no_dialog
    showProgress_protocol [of sample_env
      "sample_view\<lparr>progressDialog := Some \<lparr>wasCanceled = False\<rparr>\<rparr>" "''Rescanning...''"
      50 "\<lparr>wasCanceled = False\<rparr>"]
    showProgress_protocol [of sample_env
      "sample_view\<lparr>progressDialog := Some \<lparr>wasCanceled = True\<rparr>\<rparr>" "''Rescanning...''"
      50 "\<lparr>wasCanceled = True\<rparr>"]
    showProgress_protocol [of sample_env sample_view "''Rescanning...''" 50]
  show ?thesis
    by (simp add: sample_view_def)
qed

text \<open>
  C6 as it is written has \<^verbatim>\<open>abortRescan\<close> called whenever the dialog was canceled.
  On a view with no wallet model, a dialog that was canceled and progress 50, the
  method reaches \<^verbatim>\<open>getWalletModel()->wallet()\<close> and does not return: \<^verbatim>\<open>abortRescan\<close> is
  not called.
\<close>

theorem showProgress_canceled_counterexample:
  "walletModel (fresh_view\<lparr>progressDialog := Some \<lparr>wasCanceled = True\<rparr>\<rparr>) = None \<and>
   showProgress sample_env (fresh_view\<lparr>progressDialog := Some \<lparr>wasCanceled = True\<rparr>\<rparr>)
     ''Rescanning...'' 50 = Inl NullPointerDereference"
  by (simp add: showProgress_def getWalletModel_def fresh_view_def)

end
